theory Spec2Isabelle
  imports Complex_Main "HOL-Library.Word"
begin

section \<open>Data model of KLlama.h\<close>

subsection \<open>Numbers\<close>

text \<open>
  \<open>int32_t\<close> and \<open>int\<close> fields are 32-bit words read as two's complement
  (\<open>sint\<close>); bytes of an image are \<open>uint8_t\<close>.
\<close>

type_synonym int32 = "32 word"
type_synonym uint8 = "8 word"

text \<open>
  A C \<open>float\<close>: a finite value, one of the two infinities, or a NaN. \<open>Fin r\<close> is the
  finite float of value \<open>r\<close> (both zeros are \<open>Fin 0\<close>, which is how the comparison
  operators see them). The program only compares floats, it never computes with the
  fields modelled here, so no rounding is involved.
\<close>

datatype cfloat = Fin real | PInf | NInf | NaN

text \<open>The comparison operators of C on floats: any comparison with a NaN is false,
  except \<open>!=\<close>, which is true.\<close>

fun fless :: "cfloat \<Rightarrow> cfloat \<Rightarrow> bool" where
  "fless (Fin a) (Fin b) = (a < b)"
| "fless (Fin a) PInf = True"
| "fless NInf (Fin b) = True"
| "fless NInf PInf = True"
| "fless _ _ = False"

definition fgreater :: "cfloat \<Rightarrow> cfloat \<Rightarrow> bool" where
  "fgreater x y = fless y x"

fun fle :: "cfloat \<Rightarrow> cfloat \<Rightarrow> bool" where
  "fle (Fin a) (Fin b) = (a \<le> b)"
| "fle (Fin a) PInf = True"
| "fle NInf (Fin b) = True"
| "fle NInf PInf = True"
| "fle NInf NInf = True"
| "fle PInf PInf = True"
| "fle (Fin a) NInf = False"
| "fle PInf (Fin b) = False"
| "fle PInf NInf = False"
| "fle NaN y = False"
| "fle x NaN = False"

definition fneq :: "cfloat \<Rightarrow> cfloat \<Rightarrow> bool" where
  "fneq x y = (x = NaN \<or> y = NaN \<or> x \<noteq> y)"

text \<open>The float literals of KLlama.cpp. \<open>0.0f\<close>, \<open>1.0f\<close> and \<open>2.0f\<close> are exact;
  \<open>0.01f\<close> is the binary32 number nearest to one hundredth, \<open>10737418 / 2^30\<close>
  (bit pattern \<open>0x3C23D70A\<close>).\<close>

definition lit_0_0f :: cfloat where "lit_0_0f = Fin 0"
definition lit_1_0f :: cfloat where "lit_1_0f = Fin 1"
definition lit_2_0f :: cfloat where "lit_2_0f = Fin 2"
definition lit_0_01f :: cfloat where "lit_0_01f = Fin (10737418 / 2 ^ 30)"

text \<open>A field is in the closed range \<open>[lo, hi]\<close> when it is a finite number between
  the bounds; infinities and NaN are in no such range.\<close>

fun in_range :: "real \<Rightarrow> real \<Rightarrow> cfloat \<Rightarrow> bool" where
  "in_range lo hi (Fin r) = (lo \<le> r \<and> r \<le> hi)"
| "in_range lo hi _ = False"

fun at_least :: "real \<Rightarrow> cfloat \<Rightarrow> bool" where
  "at_least lo (Fin r) = (lo \<le> r)"
| "at_least lo PInf = True"
| "at_least lo _ = False"

subsection \<open>Errors and results\<close>

text \<open>\<open>enum class KLlamaError\<close> without its success code \<open>None\<close>: a
  \<open>KLlamaResult<T>\<close> is either an error code with its message (\<open>Inl\<close>) or the
  value (\<open>Inr\<close>; \<open>Inr ()\<close> for \<open>KLlamaResult<void>\<close>).\<close>

datatype KLlamaError =
    ModelNotFound | ModelLoadFailed | ModelInvalid
  | MmprojNotFound | MmprojLoadFailed | MmprojInvalid
  | ContextInitFailed | InsufficientMemory
  | TokenizationFailed | EvaluationFailed | SamplingFailed
  | ImageProcessingFailed | InvalidParameters
  | NotInitialized | AlreadyInitialized | OperationCancelled
  | UnknownError

type_synonym 'a KLlamaResult = "(KLlamaError \<times> string) + 'a"

definition isError :: "'a KLlamaResult \<Rightarrow> bool" where
  "isError r = (case r of Inl _ \<Rightarrow> True | Inr _ \<Rightarrow> False)"

definition isSuccess :: "'a KLlamaResult \<Rightarrow> bool" where
  "isSuccess r = (\<not> isError r)"

definition error_of :: "'a KLlamaResult \<Rightarrow> KLlamaError option" where
  "error_of r = (case r of Inl (e, m) \<Rightarrow> Some e | Inr _ \<Rightarrow> None)"

text \<open>
  Not every failure is a \<open>KLlamaResult\<close>: \<open>std::filesystem::exists(path)\<close>, in the
  overload that line 52 calls, throws \<open>std::filesystem::filesystem_error\<close> when the
  status of the path cannot be determined. Nothing on the way from
  \<open>checkFileExists\<close> through \<open>SessionParams::validate\<close> to the caller of
  \<open>initialize\<close> catches it, so those three functions either return or throw.
\<close>

datatype 'a outcome = Returns 'a | Throws_filesystem_error

subsection \<open>Parameters, messages, states\<close>

datatype GenerationState =
    Idle | Initializing | TokenizingPrompt | ProcessingImages
  | Generating | Finished | Cancelled | Error

record ImageData =
  data :: "uint8 list"

datatype MessageRole = User | Assistant | System

record MultimodalMessage =
  role :: MessageRole
  content :: string
  images :: "ImageData list"

record SamplingParams =
  temperature :: cfloat
  topP :: cfloat
  topK :: int32
  minP :: cfloat
  typicalP :: cfloat
  repeatPenalty :: cfloat
  repeatLastN :: int32
  frequencyPenalty :: cfloat
  presencePenalty :: cfloat
  nPredict :: int32

record SessionParams =
  modelPath :: string
  mmprojPath :: string
  contextSize :: int32
  batch :: int32
  gpuLayers :: int32
  mmprojUseGpu :: bool
  threads :: int32
  verbosity :: int32
  sampling :: SamplingParams

text \<open>The default member initialisers of the two structs. The decimal defaults
  stand for the floats nearest to them.\<close>

definition default_SamplingParams :: SamplingParams where
  "default_SamplingParams =
     \<lparr> temperature = Fin (7 / 10), topP = Fin (9 / 10), topK = 40,
       minP = Fin (5 / 100), typicalP = Fin 1, repeatPenalty = Fin (11 / 10),
       repeatLastN = 64, frequencyPenalty = Fin 0, presencePenalty = Fin 0,
       nPredict = - 1 \<rparr>"

definition default_SessionParams :: SessionParams where
  "default_SessionParams =
     \<lparr> modelPath = [], mmprojPath = [], contextSize = 16000, batch = 4096,
       gpuLayers = 0, mmprojUseGpu = False, threads = 6, verbosity = 1,
       sampling = default_SamplingParams \<rparr>"

section \<open>Parameter validation\<close>

text \<open>\<open>SamplingParams::validate\<close> (KLlama.cpp, lines 66 to 86).\<close>

definition SamplingParams_validate :: "SamplingParams \<Rightarrow> unit KLlamaResult" where
  "SamplingParams_validate p =
     (if fless (temperature p) lit_0_0f \<or> fgreater (temperature p) lit_2_0f then
        Inl (InvalidParameters, ''Temperature must be between 0.0 and 2.0'')
      else if fless (topP p) lit_0_0f \<or> fgreater (topP p) lit_1_0f then
        Inl (InvalidParameters, ''top_p must be between 0.0 and 1.0'')
      else if sint (topK p) < 0 then
        Inl (InvalidParameters, ''top_k must be non-negative'')
      else if fless (minP p) lit_0_0f \<or> fgreater (minP p) lit_1_0f then
        Inl (InvalidParameters, ''min_p must be between 0.0 and 1.0'')
      else if fless (repeatPenalty p) lit_0_0f then
        Inl (InvalidParameters, ''repeat_penalty must be non-negative'')
      else if sint (repeatLastN p) < 0 then
        Inl (InvalidParameters, ''repeat_last_n must be non-negative'')
      else Inr ())"

section \<open>Image validation\<close>

text \<open>\<open>KLlama::validateImageData\<close> (KLlama.cpp, lines 394 to 426). Every index read
  is guarded by the size test in front of it, as in the source.\<close>

definition validateImageData :: "ImageData \<Rightarrow> uint8 list KLlamaResult" where
  "validateImageData imageData =
     (let d = data imageData in
      if d = [] then Inl (ImageProcessingFailed, ''Image data is empty'')
      else if length d < 8 then Inl (ImageProcessingFailed, ''Image data too small'')
      else
        let validFormat =
          (if length d \<ge> 8 \<and> d ! 0 = 0x89 \<and> d ! 1 = 0x50 \<and> d ! 2 = 0x4E \<and> d ! 3 = 0x47
             then True
           else if length d \<ge> 2 \<and> d ! 0 = 0xFF \<and> d ! 1 = 0xD8 then True
           else if length d \<ge> 2 \<and> d ! 0 = 0x42 \<and> d ! 1 = 0x4D then True
           else False)
        in if \<not> validFormat then
             Inl (ImageProcessingFailed, ''Unsupported image format'')
           else Inr d)"

section \<open>The engine and the session\<close>

text \<open>
  The inference engine (\<open>llama.h\<close>), the vision engine (\<open>mtmd.h\<close>) and the file
  system are not part of the repository. What they answer is a parameter of the model:
  an \<open>Engine\<close> holds the outcome of every call the session makes to them. Memory
  allocation is taken to succeed (\<open>llama_batch_init\<close>, the containers of the C++
  runtime).

  The file system answers a status query in one of three ways: the file is there; it is
  not (\<open>ENOENT\<close>, \<open>ENOTDIR\<close>); or the query itself fails (a name that is too
  long, a directory that may not be searched, a loop of symbolic links).
\<close>

datatype file_status = FileExists | FileNotFound | StatFails

record Engine =
  file_status :: "string \<Rightarrow> file_status"
  model_load_ok :: "string \<Rightarrow> bool"
  context_init_ok :: bool
  vision_init_ok :: "string \<Rightarrow> bool"
  sampler_chain_init_ok :: bool
  chat_apply_template :: "MultimodalMessage list \<Rightarrow> int32 \<Rightarrow> int"
  bitmap_init_ok :: "ImageData \<Rightarrow> bool"
  mtmd_tokenize_result :: int
  eval_chunks_failed :: bool
  tokenize_result :: int
  prompt_decode_failed :: bool
  sampler_sample :: "nat \<Rightarrow> int32"
  vocab_is_eog :: "int32 \<Rightarrow> bool"
  token_piece :: "int32 \<Rightarrow> string"
  token_decode_failed :: "nat \<Rightarrow> bool"
  length_error_what :: string

text \<open>\<open>LLAMA_TOKEN_NULL\<close> of llama.h.\<close>

definition LLAMA_TOKEN_NULL :: int32 where
  "LLAMA_TOKEN_NULL = - 1"

text \<open>
  A \<open>CancellationToken\<close> is an atomic flag that another thread may set or reset at
  any moment; the session only polls it. It is modelled by what the successive polls of
  one call observe: \<open>t k\<close> is the answer of \<open>isCancelled()\<close> at the \<open>k\<close>-th poll
  (from 0). The pointer may be null.
\<close>

type_synonym CancellationToken = "nat \<Rightarrow> bool"

definition isCancelled :: "CancellationToken option \<Rightarrow> nat \<Rightarrow> bool" where
  "isCancelled tok k = (case tok of None \<Rightarrow> False | Some t \<Rightarrow> t k)"

text \<open>The stages a sampler chain is made of, with the arguments the source passes.
  \<open>Dist\<close> is always seeded with \<open>LLAMA_DEFAULT_SEED\<close>.\<close>

datatype sampler_stage =
    Penalties int32 cfloat cfloat cfloat
  | Greedy
  | TopK int32
  | Typical cfloat nat
  | TopP cfloat nat
  | MinP cfloat nat
  | Temp cfloat
  | Dist

text \<open>What the session does to the outside world, in order: the engine calls that
  acquire or release a resource or evaluate a batch, and the callbacks it invokes.\<close>

datatype Event =
    BackendInit | BackendFree
  | BatchInit | BatchFree
  | ModelLoad | ModelFree
  | ContextInit | ContextFree
  | VisionInit | VisionFree
  | SamplerChainInit | SamplerFree
  | MemorySeqRm
  | TextBatchInit | TextBatchFree
  | Decode
  | ProgressCb string
  | TokenCb string

text \<open>\<open>GenerationStats\<close> without the two fields read off the wall clock
  (\<open>timeElapsed\<close>, \<open>tokensPerSecond\<close>); \<open>statsSampling\<close> is the member that line 555
  of KLlama.cpp assigns.\<close>

record GenerationStats =
  tokensGenerated :: int
  state :: GenerationState
  statsSampling :: SamplingParams

text \<open>The members of \<open>class KLlama\<close>. A handle is \<open>True\<close> when it is not null;
  \<open>batch_token\<close> is \<open>batch.token\<close>; the sampler handle carries the chain it was
  built with. \<open>trace\<close> is the history of events, oldest first.\<close>

record KLlama =
  initialized :: bool
  params :: SessionParams
  generationState :: GenerationState
  visionContext :: bool
  model :: bool
  llamaContext :: bool
  sampler :: "sampler_stage list option"
  batch_token :: bool
  currentStats :: GenerationStats
  trace :: "Event list"

definition new_KLlama :: KLlama where
  "new_KLlama =
     \<lparr> initialized = False, params = default_SessionParams, generationState = Idle,
       visionContext = False, model = False, llamaContext = False, sampler = None,
       batch_token = False,
       currentStats = \<lparr> tokensGenerated = 0, state = Idle,
                        statsSampling = default_SamplingParams \<rparr>,
       trace = [] \<rparr>"

definition emit :: "Event \<Rightarrow> KLlama \<Rightarrow> KLlama" where
  "emit ev s = s\<lparr> trace := trace s @ [ev] \<rparr>"

text \<open>A callback is modelled by whether the caller passed one: invoking it is an
  event (the fraction given to the progress callback is left out); it does not throw
  and does not change the session.\<close>

definition progress :: "bool \<Rightarrow> string \<Rightarrow> KLlama \<Rightarrow> KLlama" where
  "progress progressCallback stage s =
     (if progressCallback then emit (ProgressCb stage) s else s)"

definition setGenerationState :: "GenerationState \<Rightarrow> KLlama \<Rightarrow> KLlama" where
  "setGenerationState st s =
     s\<lparr> generationState := st, currentStats := (currentStats s)\<lparr> state := st \<rparr> \<rparr>"

text \<open>\<open>KLlama::checkFileExists\<close> (lines 51 to 56).\<close>

definition checkFileExists :: "Engine \<Rightarrow> string \<Rightarrow> unit KLlamaResult outcome" where
  "checkFileExists e path =
     (case file_status e path of
        StatFails \<Rightarrow> Throws_filesystem_error
      | FileNotFound \<Rightarrow> Returns (Inl (ModelNotFound, ''File not found: '' @ path))
      | FileExists \<Rightarrow> Returns (Inr ()))"

definition checkInitialized :: "KLlama \<Rightarrow> unit KLlamaResult" where
  "checkInitialized s =
     (if \<not> initialized s then
        Inl (NotInitialized, ''KLlama must be initialized before use'')
      else Inr ())"

text \<open>\<open>SessionParams::validate\<close> (lines 88 to 117).\<close>

definition SessionParams_validate ::
  "Engine \<Rightarrow> SessionParams \<Rightarrow> unit KLlamaResult outcome" where
  "SessionParams_validate e p =
     (if modelPath p = [] then
        Returns (Inl (InvalidParameters, ''Model path cannot be empty''))
      else case checkFileExists e (modelPath p) of
        Throws_filesystem_error \<Rightarrow> Throws_filesystem_error
      | Returns fileCheck \<Rightarrow>
          if isError fileCheck then Returns fileCheck
          else
            (case (if mmprojPath p \<noteq> [] then checkFileExists e (mmprojPath p)
                   else Returns (Inr ())) of
               Throws_filesystem_error \<Rightarrow> Throws_filesystem_error
             | Returns mmprojCheck \<Rightarrow>
                 if mmprojPath p \<noteq> [] \<and> isError mmprojCheck then
                   Returns (Inl (MmprojNotFound,
                                 ''Multimodal projector file not found: '' @ mmprojPath p))
                 else if sint (contextSize p) \<le> 0 then
                   Returns (Inl (InvalidParameters, ''Context size must be positive''))
                 else if sint (batch p) \<le> 0 then
                   Returns (Inl (InvalidParameters, ''Batch size must be positive''))
                 else if sint (threads p) \<le> 0 then
                   Returns (Inl (InvalidParameters, ''Thread count must be positive''))
                 else Returns (SamplingParams_validate (sampling p))))"

subsection \<open>Teardown\<close>

text \<open>\<open>KLlama::freeMemory\<close> (lines 126 to 152). Resetting the vision handle frees
  the vision context when there is one.\<close>

definition freeMemory :: "KLlama \<Rightarrow> unit KLlamaResult \<times> KLlama" where
  "freeMemory s =
     (let s1 = (if batch_token s then (emit BatchFree s)\<lparr> batch_token := False \<rparr> else s);
          s2 = (if sampler s1 \<noteq> None then (emit SamplerFree s1)\<lparr> sampler := None \<rparr> else s1);
          s3 = (if llamaContext s2 then (emit ContextFree s2)\<lparr> llamaContext := False \<rparr> else s2);
          s4 = (if model s3 then (emit ModelFree s3)\<lparr> model := False \<rparr> else s3);
          s5 = (if initialized s4 then (emit BackendFree s4)\<lparr> initialized := False \<rparr> else s4);
          s6 = (if visionContext s5 then (emit VisionFree s5)\<lparr> visionContext := False \<rparr> else s5)
      in (Inr (), setGenerationState Idle s6))"

subsection \<open>Initialisation\<close>

text \<open>\<open>KLlama::initializeModel\<close> (lines 210 to 248); its poll of the token is the
  second of an \<open>initialize\<close> call.\<close>

definition initializeModel ::
  "Engine \<Rightarrow> bool \<Rightarrow> CancellationToken option \<Rightarrow> KLlama \<Rightarrow> unit KLlamaResult \<times> KLlama" where
  "initializeModel e progressCallback cancellationToken s =
     (let s1 = emit ModelLoad (progress progressCallback ''Loading model'' s) in
      if \<not> model_load_ok e (modelPath (params s1)) then
        (Inl (ModelLoadFailed, ''Failed to load model from: '' @ modelPath (params s1)), s1)
      else
        let s2 = s1\<lparr> model := True \<rparr> in
        if isCancelled cancellationToken 1 then (Inl (OperationCancelled, []), s2)
        else
          let s3 = emit ContextInit (progress progressCallback ''Initializing context'' s2) in
          if \<not> context_init_ok e then
            (Inl (ContextInitFailed, ''Failed to initialize llama context''), s3)
          else
            (Inr (), progress progressCallback ''Model loaded successfully''
                       (s3\<lparr> llamaContext := True \<rparr>)))"

text \<open>\<open>KLlama::initializeVision\<close> (lines 250 to 278); its poll is the third.\<close>

definition initializeVision ::
  "Engine \<Rightarrow> bool \<Rightarrow> CancellationToken option \<Rightarrow> KLlama \<Rightarrow> unit KLlamaResult \<times> KLlama" where
  "initializeVision e progressCallback cancellationToken s =
     (let s1 = emit VisionInit (progress progressCallback ''Loading vision model'' s) in
      if \<not> vision_init_ok e (mmprojPath (params s1)) then
        (Inl (MmprojLoadFailed, ''Failed to load vision model from: '' @ mmprojPath (params s1)),
         s1)
      else
        let s2 = s1\<lparr> visionContext := True \<rparr> in
        if isCancelled cancellationToken 2 then (Inl (OperationCancelled, []), s2)
        else (Inr (), progress progressCallback ''Vision model loaded successfully'' s2))"

text \<open>\<open>KLlama::initialize\<close> (lines 155 to 208). The exception of the validation
  leaves before any member is written.\<close>

definition initialize ::
  "Engine \<Rightarrow> SessionParams \<Rightarrow> bool \<Rightarrow> CancellationToken option \<Rightarrow> KLlama
     \<Rightarrow> unit KLlamaResult outcome \<times> KLlama" where
  "initialize e sessionParams progressCallback cancellationToken s =
     (if initialized s then (Returns (Inl (AlreadyInitialized, [])), s)
      else case SessionParams_validate e sessionParams of
        Throws_filesystem_error \<Rightarrow> (Throws_filesystem_error, s)
      | Returns validation \<Rightarrow>
          if isError validation then (Returns validation, s)
          else
            (let s1 = progress progressCallback ''Initializing backend''
                        (setGenerationState Initializing (s\<lparr> params := sessionParams \<rparr>)) in
             if isCancelled cancellationToken 0 then
               (Returns (Inl (OperationCancelled, [])), setGenerationState Cancelled s1)
             else
               let s2 = (emit BatchInit (emit BackendInit s1))\<lparr> batch_token := True \<rparr> in
               (case initializeModel e progressCallback cancellationToken s2 of
                  (Inl err, s3) \<Rightarrow> (Returns (Inl err), snd (freeMemory s3))
                | (Inr _, s3) \<Rightarrow>
                    (case (if mmprojPath (params s3) \<noteq> []
                           then initializeVision e progressCallback cancellationToken s3
                           else (Inr (), s3)) of
                       (Inl err, s4) \<Rightarrow> (Returns (Inl err), snd (freeMemory s4))
                     | (Inr _, s4) \<Rightarrow>
                         (Returns (Inr ()),
                          progress progressCallback ''Initialization complete''
                            (setGenerationState Idle (s4\<lparr> initialized := True \<rparr>)))))))"

section \<open>Sampler configuration\<close>

text \<open>The chain that lines 447 to 489 of \<open>KLlama::configureSampler\<close> build by
  successive \<open>llama_sampler_chain_add\<close> calls, first stage first.\<close>

definition sampler_chain :: "SamplingParams \<Rightarrow> sampler_stage list" where
  "sampler_chain p =
     (let c1 = (if fneq (repeatPenalty p) lit_1_0f
                then [Penalties (repeatLastN p) (repeatPenalty p)
                        (frequencyPenalty p) (presencePenalty p)]
                else [])
      in if fle (temperature p) lit_0_01f then c1 @ [Greedy]
         else
           let c2 = (if sint (topK p) > 0 then c1 @ [TopK (topK p)] else c1);
               c3 = (if fless (typicalP p) lit_1_0f \<and> fgreater (typicalP p) lit_0_0f
                     then c2 @ [Typical (typicalP p) 1] else c2);
               c4 = (if fless (topP p) lit_1_0f \<and> fgreater (topP p) lit_0_0f
                     then c3 @ [TopP (topP p) 1] else c3);
               c5 = (if fgreater (minP p) lit_0_0f then c4 @ [MinP (minP p) 1] else c4)
           in c5 @ [Temp (temperature p), Dist])"

text \<open>\<open>KLlama::configureSampler\<close> (lines 429 to 490).\<close>

definition configureSampler ::
  "Engine \<Rightarrow> SamplingParams \<Rightarrow> KLlama \<Rightarrow> unit KLlamaResult \<times> KLlama" where
  "configureSampler e samplingParams s =
     (case SamplingParams_validate samplingParams of
        Inl err \<Rightarrow> (Inl err, s)
      | Inr _ \<Rightarrow>
          let s1 = (if sampler s \<noteq> None then (emit SamplerFree s)\<lparr> sampler := None \<rparr> else s);
              s2 = emit SamplerChainInit s1
          in if \<not> sampler_chain_init_ok e then
               (Inl (SamplingFailed, ''Failed to create sampler chain''), s2\<lparr> sampler := None \<rparr>)
             else (Inr (), s2\<lparr> sampler := Some (sampler_chain samplingParams) \<rparr>))"

section \<open>Generation\<close>

text \<open>\<open>KLlama::extractAllImages\<close> (lines 836 to 846).\<close>

definition extractAllImages :: "MultimodalMessage list \<Rightarrow> ImageData list" where
  "extractAllImages conversation = concat (map images conversation)"

text \<open>The validation loop of lines 534 to 538: the error of the first image that
  fails, if any.\<close>

fun first_image_error :: "ImageData list \<Rightarrow> (KLlamaError \<times> string) option" where
  "first_image_error [] = None"
| "first_image_error (img # rest) =
     (case validateImageData img of
        Inl err \<Rightarrow> Some err
      | Inr _ \<Rightarrow> first_image_error rest)"

text \<open>\<open>KLlama::reset\<close> (lines 848 to 855).\<close>

definition reset :: "KLlama \<Rightarrow> unit KLlamaResult \<times> KLlama" where
  "reset s =
     (case checkInitialized s of
        Inl err \<Rightarrow> (Inl err, s)
      | Inr _ \<Rightarrow> (Inr (), emit MemorySeqRm s))"

text \<open>
  \<open>tokenToString\<close> (lines 15 to 24). \<open>llama_token_to_piece\<close> answers the length of
  the piece when it fits the 32-byte buffer and minus that length when it does not. In
  the second case the function builds a \<open>std::string\<close> of \<open>static_cast<size_t>(n)\<close>
  characters with \<open>n\<close> negative, which throws \<open>std::length_error\<close>: \<open>None\<close>.
\<close>

definition tokenToString :: "Engine \<Rightarrow> int32 \<Rightarrow> string option" where
  "tokenToString e token =
     (let piece = token_piece e token in
      if length piece \<le> 32 then Some piece else None)"

text \<open>Line 765.\<close>

definition maxTokens :: "SamplingParams \<Rightarrow> int" where
  "maxTokens samplingParams =
     (if sint (nPredict samplingParams) > 0 then sint (nPredict samplingParams) else 4096)"

text \<open>Lines 823 to 828: what follows the per-token loop.\<close>

definition finish_generation ::
  "bool \<Rightarrow> string \<Rightarrow> KLlama \<Rightarrow> string KLlamaResult \<times> KLlama" where
  "finish_generation progressCallback response_text s =
     (Inr response_text,
      progress progressCallback ''Generation complete'' (setGenerationState Finished s))"

text \<open>
  The per-token loop (lines 767 to 821). \<open>tokenCount\<close> and \<open>response_text\<close> are the
  locals of the source; \<open>polls\<close> is the number of polls of the token made before the
  loop, so that the poll of the iteration at \<open>tokenCount\<close> is poll
  \<open>polls + tokenCount\<close>, and that iteration takes sample number \<open>tokenCount\<close> and
  submits decode number \<open>tokenCount\<close>. \<open>iters\<close> counts the entries into the loop
  body; it is returned with the result and the session. The \<open>catch\<close> of line 829
  turns the exception of \<open>tokenToString\<close> into \<open>UnknownError\<close>.
\<close>

function gen_loop ::
  "Engine \<Rightarrow> SamplingParams \<Rightarrow> bool \<Rightarrow> bool \<Rightarrow> CancellationToken option \<Rightarrow> nat
     \<Rightarrow> int \<Rightarrow> string \<Rightarrow> nat \<Rightarrow> KLlama \<Rightarrow> nat \<times> string KLlamaResult \<times> KLlama" where
  "gen_loop e samplingParams tokenCallback progressCallback cancellationToken polls
       tokenCount response_text iters s =
     (if generationState s = Generating \<and> tokenCount < maxTokens samplingParams then
        if isCancelled cancellationToken (polls + nat tokenCount) then
          (iters + 1, Inl (OperationCancelled, []), setGenerationState Cancelled s)
        else
          let token_id = sampler_sample e (nat tokenCount) in
          if token_id = LLAMA_TOKEN_NULL then
            (iters + 1, Inl (SamplingFailed, ''Sampler returned null token''),
             setGenerationState Error s)
          else if vocab_is_eog e token_id then
            (iters + 1, finish_generation progressCallback response_text s)
          else
            case tokenToString e token_id of
              None \<Rightarrow>
                (iters + 1, Inl (UnknownError, length_error_what e),
                 setGenerationState Error s)
            | Some token_str \<Rightarrow>
                let s1 = (if tokenCallback then emit (TokenCb token_str) s else s);
                    s2 = s1\<lparr> currentStats :=
                               (currentStats s1)\<lparr> tokensGenerated := tokenCount + 1 \<rparr> \<rparr>;
                    s3 = emit Decode s2
                in if token_decode_failed e (nat tokenCount) then
                     (iters + 1, Inl (EvaluationFailed, ''Failed to decode token''),
                      setGenerationState Error s3)
                   else
                     gen_loop e samplingParams tokenCallback progressCallback
                       cancellationToken polls (tokenCount + 1)
                       (response_text @ token_str) (iters + 1)
                       (if progressCallback \<and> sint (nPredict samplingParams) > 0
                        then progress progressCallback ''Generating tokens'' s3 else s3)
      else (iters, finish_generation progressCallback response_text s))"
  by pat_completeness auto
termination
  by (relation "measure (\<lambda>(e, sp, tcb, pcb, tok, polls, tokenCount, resp, iters, s).
                   nat (maxTokens sp - tokenCount))") auto

declare gen_loop.simps [simp del]

text \<open>Lines 751 to 767: the last poll before the loop, then the loop from
  \<open>tokenCount = 0\<close> and an empty response.\<close>

definition start_generation ::
  "Engine \<Rightarrow> SamplingParams \<Rightarrow> bool \<Rightarrow> bool \<Rightarrow> CancellationToken option \<Rightarrow> nat
     \<Rightarrow> KLlama \<Rightarrow> string KLlamaResult \<times> KLlama" where
  "start_generation e samplingParams tokenCallback progressCallback cancellationToken polls s =
     (if isCancelled cancellationToken polls then
        (Inl (OperationCancelled, []), setGenerationState Cancelled s)
      else
        snd (gen_loop e samplingParams tokenCallback progressCallback cancellationToken
               (polls + 1) 0 [] 0
               (progress progressCallback ''Generating response''
                  (setGenerationState Generating s))))"

text \<open>
  The \<open>try\<close> block up to the loop (lines 605 to 749): the first poll, then the
  multimodal or the text-only evaluation of the prompt. The batch of the text prompt is
  freed right after its \<open>llama_decode\<close>, whether that failed or not. A prompt of zero
  tokens makes line 738 write out of bounds; the model goes on as if it had not.
\<close>

definition evaluate_and_generate ::
  "Engine \<Rightarrow> ImageData list \<Rightarrow> SamplingParams \<Rightarrow> bool \<Rightarrow> bool \<Rightarrow> CancellationToken option
     \<Rightarrow> KLlama \<Rightarrow> string KLlamaResult \<times> KLlama" where
  "evaluate_and_generate e allImages samplingParams tokenCallback progressCallback
       cancellationToken s =
     (if isCancelled cancellationToken 0 then
        (Inl (OperationCancelled, []), setGenerationState Cancelled s)
      else if allImages \<noteq> [] then
        let s1 = progress progressCallback ''Processing images''
                   (setGenerationState ProcessingImages s) in
        if \<not> list_all (bitmap_init_ok e) allImages then
          (Inl (ImageProcessingFailed, ''Failed to create bitmap from image data''),
           setGenerationState Error s1)
        else
          let s2 = progress progressCallback ''Tokenizing multimodal prompt''
                     (setGenerationState TokenizingPrompt s1) in
          if mtmd_tokenize_result e \<noteq> 0 then
            (Inl (TokenizationFailed, ''Failed to tokenize multimodal input''),
             setGenerationState Error s2)
          else if isCancelled cancellationToken 1 then
            (Inl (OperationCancelled, []), setGenerationState Cancelled s2)
          else
            let s3 = progress progressCallback ''Evaluating multimodal prompt'' s2 in
            if eval_chunks_failed e then
              (Inl (EvaluationFailed, ''Failed to evaluate multimodal prompt''),
               setGenerationState Error s3)
            else
              start_generation e samplingParams tokenCallback progressCallback
                cancellationToken 2 s3
      else
        let s1 = progress progressCallback ''Tokenizing text prompt''
                   (setGenerationState TokenizingPrompt s) in
        if tokenize_result e < 0 then
          (Inl (TokenizationFailed, ''Failed to tokenize text prompt: prompt too long''),
           setGenerationState Error s1)
        else
          let s2 = emit TextBatchFree (emit Decode (emit TextBatchInit
                     (progress progressCallback ''Evaluating text prompt'' s1))) in
          if prompt_decode_failed e then
            (Inl (EvaluationFailed, ''Failed to evaluate text prompt''),
             setGenerationState Error s2)
          else
            start_generation e samplingParams tokenCallback progressCallback
              cancellationToken 1 s2)"

text \<open>\<open>KLlama::generateResponseInternal\<close> (lines 512 to 833).\<close>

definition generateResponseInternal ::
  "Engine \<Rightarrow> MultimodalMessage list \<Rightarrow> SamplingParams \<Rightarrow> bool \<Rightarrow> bool
     \<Rightarrow> CancellationToken option \<Rightarrow> KLlama \<Rightarrow> string KLlamaResult \<times> KLlama" where
  "generateResponseInternal e conversation samplingParams tokenCallback progressCallback
       cancellationToken s =
     (case checkInitialized s of
        Inl err \<Rightarrow> (Inl err, s)
      | Inr _ \<Rightarrow>
         (if generationState s \<noteq> Idle then
            (Inl (InvalidParameters, ''Generation already in progress''), s)
          else if conversation = [] then
            (Inl (InvalidParameters, ''Conversation cannot be empty''), s)
          else
            let allImages = extractAllImages conversation in
            (case first_image_error allImages of
               Some err \<Rightarrow> (Inl err, s)
             | None \<Rightarrow>
                (if allImages \<noteq> [] \<and> \<not> visionContext s then
                   (Inl (InvalidParameters,
                         ''Images provided but multimodal projector not loaded''), s)
                 else
                   (case configureSampler e samplingParams s of
                      (Inl err, s1) \<Rightarrow> (Inl err, s1)
                    | (Inr _, s1) \<Rightarrow>
                       (let s2 = (setGenerationState Initializing s1)
                                   \<lparr> currentStats := \<lparr> tokensGenerated = 0, state = Idle,
                                                       statsSampling = samplingParams \<rparr> \<rparr>
                        in (case reset s2 of
                              (Inl err, s3) \<Rightarrow> (Inl err, setGenerationState Error s3)
                            | (Inr _, s3) \<Rightarrow>
                               (if chat_apply_template e conversation (contextSize (params s3)) < 0
                                then
                                  (Inl (TokenizationFailed,
                                        ''Failed to apply chat template. Prompt may be too long or template invalid.''),
                                   s3)
                                else
                                  evaluate_and_generate e allImages samplingParams tokenCallback
                                    progressCallback cancellationToken s3))))))))"

text \<open>The two public overloads (lines 493 to 510).\<close>

definition generateResponse ::
  "Engine \<Rightarrow> MultimodalMessage list \<Rightarrow> bool \<Rightarrow> bool \<Rightarrow> CancellationToken option
     \<Rightarrow> KLlama \<Rightarrow> string KLlamaResult \<times> KLlama" where
  "generateResponse e conversation tokenCallback progressCallback cancellationToken s =
     generateResponseInternal e conversation (sampling (params s)) tokenCallback
       progressCallback cancellationToken s"

definition generateResponse_override ::
  "Engine \<Rightarrow> MultimodalMessage list \<Rightarrow> SamplingParams \<Rightarrow> bool \<Rightarrow> bool
     \<Rightarrow> CancellationToken option \<Rightarrow> KLlama \<Rightarrow> string KLlamaResult \<times> KLlama" where
  "generateResponse_override e conversation samplingOverride tokenCallback progressCallback
       cancellationToken s =
     generateResponseInternal e conversation samplingOverride tokenCallback
       progressCallback cancellationToken s"

section \<open>Notions of the specification\<close>

text \<open>Image validation, in the specification's words: at least 8 bytes that begin
  with the PNG, the JPEG or the BMP signature.\<close>

definition accepted_image :: "uint8 list \<Rightarrow> bool" where
  "accepted_image d =
     (8 \<le> length d \<and>
      (take 4 d = [0x89, 0x50, 0x4E, 0x47] \<or> take 2 d = [0xFF, 0xD8] \<or>
       take 2 d = [0x42, 0x4D]))"

text \<open>The sampler pipeline of the specification: the optional stages in their fixed
  order, greedy decoding alone when the temperature is at most \<open>0.01f\<close>. The
  comparisons are those of the float type.\<close>

definition pipeline_spec :: "SamplingParams \<Rightarrow> sampler_stage list" where
  "pipeline_spec p =
     (if fneq (repeatPenalty p) lit_1_0f
      then [Penalties (repeatLastN p) (repeatPenalty p) (frequencyPenalty p) (presencePenalty p)]
      else []) @
     (if fle (temperature p) lit_0_01f then [Greedy]
      else
        (if 0 < sint (topK p) then [TopK (topK p)] else []) @
        (if fless lit_0_0f (typicalP p) \<and> fless (typicalP p) lit_1_0f
         then [Typical (typicalP p) 1] else []) @
        (if fless lit_0_0f (topP p) \<and> fless (topP p) lit_1_0f
         then [TopP (topP p) 1] else []) @
        (if fless lit_0_0f (minP p) then [MinP (minP p) 1] else []) @
        [Temp (temperature p), Dist])"

text \<open>The finite values of the binary32 format: a significand of 24 bits and an
  exponent from \<open>-149\<close> to \<open>104\<close>.\<close>

definition binary32_value :: "real \<Rightarrow> bool" where
  "binary32_value r =
     (\<exists>m e. \<bar>m\<bar> < 2 ^ 24 \<and> - 149 \<le> e \<and> e \<le> 104 \<and> r = real_of_int m * 2 powi e)"

text \<open>The ranges of the specification for the six validated fields, and the message
  of the first field out of its range, in declaration order.\<close>

definition ranges_ok :: "SamplingParams \<Rightarrow> bool" where
  "ranges_ok p =
     (in_range 0 2 (temperature p) \<and> in_range 0 1 (topP p) \<and> 0 \<le> sint (topK p) \<and>
      in_range 0 1 (minP p) \<and> at_least 0 (repeatPenalty p) \<and> 0 \<le> sint (repeatLastN p))"

definition first_violation :: "SamplingParams \<Rightarrow> string option" where
  "first_violation p =
     (if \<not> in_range 0 2 (temperature p) then Some ''Temperature must be between 0.0 and 2.0''
      else if \<not> in_range 0 1 (topP p) then Some ''top_p must be between 0.0 and 1.0''
      else if \<not> 0 \<le> sint (topK p) then Some ''top_k must be non-negative''
      else if \<not> in_range 0 1 (minP p) then Some ''min_p must be between 0.0 and 1.0''
      else if \<not> at_least 0 (repeatPenalty p) then Some ''repeat_penalty must be non-negative''
      else if \<not> 0 \<le> sint (repeatLastN p) then Some ''repeat_last_n must be non-negative''
      else None)"

definition no_NaN :: "SamplingParams \<Rightarrow> bool" where
  "no_NaN p =
     (temperature p \<noteq> NaN \<and> topP p \<noteq> NaN \<and> minP p \<noteq> NaN \<and> repeatPenalty p \<noteq> NaN)"

text \<open>The events with which teardown releases what a session holds.\<close>

definition release_events :: "KLlama \<Rightarrow> Event list" where
  "release_events s =
     (if batch_token s then [BatchFree] else []) @
     (if sampler s \<noteq> None then [SamplerFree] else []) @
     (if llamaContext s then [ContextFree] else []) @
     (if model s then [ModelFree] else []) @
     (if initialized s then [BackendFree] else []) @
     (if visionContext s then [VisionFree] else [])"


text \<open>An empty session: not initialised and holding no engine handle, as a session
  is when constructed and after every teardown.\<close>

definition empty_session :: "KLlama \<Rightarrow> bool" where
  "empty_session s =
     (\<not> initialized s \<and> \<not> batch_token s \<and> sampler s = None \<and> \<not> llamaContext s \<and>
      \<not> model s \<and> \<not> visionContext s)"

text \<open>The fragments delivered to the token callback so far.\<close>

fun token_fragment :: "Event \<Rightarrow> string option" where
  "token_fragment (TokenCb t) = Some t"
| "token_fragment _ = None"

definition token_callbacks :: "KLlama \<Rightarrow> string list" where
  "token_callbacks s = List.map_filter token_fragment (trace s)"

text \<open>A conversation of one message that passes the preconditions of generation on
  a session: every image is accepted, and a vision context is loaded if there is one.\<close>

definition valid_one_message :: "KLlama \<Rightarrow> MultimodalMessage list \<Rightarrow> bool" where
  "valid_one_message s conversation =
     (case conversation of
        [m] \<Rightarrow> list_all (\<lambda>i. accepted_image (data i)) (images m) \<and>
               (images m = [] \<or> visionContext s)
      | _ \<Rightarrow> False)"

section \<open>Concrete sessions\<close>

text \<open>An engine on which every call succeeds. Its files are \<open>model.gguf\<close> and
  \<open>mmproj.gguf\<close>; as on a POSIX file system, the status query of a name of more than
  255 bytes fails (\<open>ENAMETOOLONG\<close>), and no such file can exist. The sampler draws
  token 100 twice and then token 2, the end-of-generation token.\<close>

definition demo_engine :: Engine where
  "demo_engine =
     \<lparr> file_status = (\<lambda>path. if path = ''model.gguf'' \<or> path = ''mmproj.gguf''
                             then FileExists
                             else if 255 < length path then StatFails
                             else FileNotFound),
       model_load_ok = (\<lambda>path. True),
       context_init_ok = True,
       vision_init_ok = (\<lambda>path. True),
       sampler_chain_init_ok = True,
       chat_apply_template = (\<lambda>conversation size. 32),
       bitmap_init_ok = (\<lambda>img. True),
       mtmd_tokenize_result = 0,
       eval_chunks_failed = False,
       tokenize_result = 8,
       prompt_decode_failed = False,
       sampler_sample = (\<lambda>i. if i < 2 then 100 else 2),
       vocab_is_eog = (\<lambda>t. t = 2),
       token_piece = (\<lambda>t. ''ab''),
       token_decode_failed = (\<lambda>i. False),
       length_error_what = ''basic_string'' \<rparr>"

text \<open>The same engine with a model that never ends its answer.\<close>

definition endless_engine :: Engine where
  "endless_engine = demo_engine\<lparr> sampler_sample := (\<lambda>i. 100) \<rparr>"

definition demo_params :: SessionParams where
  "demo_params = default_SessionParams\<lparr> modelPath := ''model.gguf'' \<rparr>"

definition missing_model_params :: SessionParams where
  "missing_model_params = default_SessionParams\<lparr> modelPath := ''missing.gguf'' \<rparr>"


definition long_name_params :: SessionParams where
  "long_name_params = default_SessionParams\<lparr> modelPath := replicate 256 (CHR ''a'') \<rparr>"

definition demo_conversation :: "MultimodalMessage list" where
  "demo_conversation = [\<lparr> role = User, content = ''Hi'', images = [] \<rparr>]"

text \<open>A token that is observed set from poll \<open>n\<close> on.\<close>

definition cancelled_from :: "nat \<Rightarrow> CancellationToken" where
  "cancelled_from n = (\<lambda>k. n \<le> k)"

text \<open>The session after a successful \<open>initialize\<close>, and after one complete
  generation on it.\<close>

definition ready_session :: KLlama where
  "ready_session = snd (initialize demo_engine demo_params False None new_KLlama)"

definition finished_session :: KLlama where
  "finished_session =
     snd (generateResponse demo_engine demo_conversation True False None ready_session)"

definition nan_temperature :: SamplingParams where
  "nan_temperature = default_SamplingParams\<lparr> temperature := NaN \<rparr>"

definition hot_temperature :: SamplingParams where
  "hot_temperature = default_SamplingParams\<lparr> temperature := Fin 5 \<rparr>"

definition three_tokens :: SamplingParams where
  "three_tokens = default_SamplingParams\<lparr> nPredict := 3 \<rparr>"

text \<open>Engines that refuse to render the chat template, or to create a sampler
  chain.\<close>

definition no_template_engine :: Engine where
  "no_template_engine = demo_engine\<lparr> chat_apply_template := (\<lambda>conversation size. - 1) \<rparr>"

definition no_sampler_engine :: Engine where
  "no_sampler_engine = demo_engine\<lparr> sampler_chain_init_ok := False \<rparr>"

section \<open>Parameter validation: properties\<close>

lemma validate_ranges_ok:
  "ranges_ok p \<Longrightarrow> SamplingParams_validate p = Inr ()"
  unfolding ranges_ok_def SamplingParams_validate_def fgreater_def
    lit_0_0f_def lit_1_0f_def lit_2_0f_def
  by (cases "temperature p"; cases "topP p"; cases "minP p"; cases "repeatPenalty p") auto

text \<open>On parameters without a NaN, \<open>validate\<close> answers as the specification says: it
  succeeds when every field is in its range and otherwise reports the first field, in
  declaration order, that is not.\<close>

lemma validate_first_violation:
  "no_NaN p \<Longrightarrow>
   SamplingParams_validate p =
     (case first_violation p of None \<Rightarrow> Inr () | Some m \<Rightarrow> Inl (InvalidParameters, m))"
  unfolding no_NaN_def first_violation_def SamplingParams_validate_def fgreater_def
    lit_0_0f_def lit_1_0f_def lit_2_0f_def
  by (cases "temperature p"; cases "topP p"; cases "minP p"; cases "repeatPenalty p")
     (auto simp: not_le not_less)

lemma first_violation_None: "(first_violation p = None) = ranges_ok p"
  by (simp add: first_violation_def ranges_ok_def)

text \<open>
  Claim C4. \<open>validate\<close> succeeds on every value whose six fields are in range
  (\<open>validate_ranges_ok\<close>), and on values without a NaN it rejects any field out of
  range, the first one first (\<open>validate_first_violation\<close>). But a NaN is in no range and
  every one of the tests \<open>x < lo || x > hi\<close> is false on it: with a NaN temperature
  and the defaults elsewhere, \<open>validate\<close> succeeds although the temperature is not in
  \<open>[0, 2]\<close>.
\<close>

theorem validate_accepts_NaN:
  "\<not> in_range 0 2 (temperature nan_temperature) \<and>
   \<not> ranges_ok nan_temperature \<and>
   SamplingParams_validate nan_temperature = Inr ()"
  by (simp add: nan_temperature_def default_SamplingParams_def SamplingParams_validate_def
        ranges_ok_def fgreater_def lit_0_0f_def lit_1_0f_def lit_2_0f_def)

section \<open>Sampler configuration: properties\<close>

text \<open>No binary32 number lies strictly between \<open>0.01f\<close> and one hundredth: on
  floats, to be at most \<open>0.01f\<close> is to be at most 0.01.\<close>

lemma binary32_le_0_01f:
  assumes "binary32_value r"
  shows "(r \<le> 10737418 / 2 ^ 30) = (r \<le> 1 / 100)"
proof
  assume "r \<le> 10737418 / 2 ^ 30"
  then show "r \<le> 1 / 100" by simp
next
  assume le: "r \<le> 1 / 100"
  from assms obtain m :: int and e :: int where m: "\<bar>m\<bar> < 2 ^ 24"
    and r: "r = real_of_int m * 2 powi e"
    unfolding binary32_value_def by blast
  show "r \<le> 10737418 / 2 ^ 30"
  proof (cases "- 30 \<le> e")
    case True
    define k where "k = nat (e + 30)"
    have e: "e = int k - 30" using True by (simp add: k_def)
    have "(2::real) powi e = 2 ^ k / 2 ^ 30"
      unfolding e by (simp add: power_int_diff)
    then have rj: "r = real_of_int (m * 2 ^ k) / 1073741824" using r by simp
    define j where "j = m * 2 ^ k"
    from rj have rj': "r = real_of_int j / 1073741824" by (simp only: j_def)
    from le rj' have "real_of_int j / 1073741824 \<le> 1 / 100" by simp
    then have "real_of_int j \<le> 1073741824 / 100" by (simp add: field_simps)
    then have "real_of_int j < 10737419" by simp
    then have "j < 10737419" by linarith
    then have "j \<le> 10737418" by simp
    then have "real_of_int j \<le> 10737418" by linarith
    then have "real_of_int j / 1073741824 \<le> 10737418 / 1073741824"
      by (rule divide_right_mono) simp
    then show ?thesis using rj' by simp
  next
    case False
    then have e: "e \<le> - 31" by simp
    have "(2::real) powi e \<le> 2 powi (- 31)"
      using e by (intro power_int_increasing) simp_all
    moreover have "(2::real) powi (- 31) = 1 / 2 ^ 31"
      by (simp add: power_int_minus inverse_eq_divide)
    ultimately have p: "(2::real) powi e \<le> 1 / 2 ^ 31" by simp
    have p0: "0 \<le> (2::real) powi e" by simp
    have "r \<le> \<bar>real_of_int m\<bar> * 2 powi e"
      unfolding r using p0 by (simp add: mult_right_mono)
    also have "\<dots> \<le> 2 ^ 24 * 2 powi e"
      using m p0 by (intro mult_right_mono) simp_all
    also have "\<dots> \<le> 2 ^ 24 * (1 / 2 ^ 31)"
      using p by (intro mult_left_mono) simp_all
    also have "\<dots> \<le> 10737418 / 2 ^ 30" by simp
    finally show ?thesis .
  qed
qed

lemma fle_lit_0_01f:
  "binary32_value r \<Longrightarrow> fle (Fin r) lit_0_01f = (r \<le> 1 / 100)"
  unfolding lit_0_01f_def fle.simps by (rule binary32_le_0_01f)

lemma sampler_chain_spec: "sampler_chain p = pipeline_spec p"
  by (simp add: sampler_chain_def pipeline_spec_def Let_def fgreater_def)

lemma validate_default: "SamplingParams_validate default_SamplingParams = Inr ()"
  by (simp add: default_SamplingParams_def SamplingParams_validate_def
        fgreater_def lit_0_0f_def lit_1_0f_def lit_2_0f_def)

text \<open>
  Claim C2. For validated sampling parameters, and when the engine creates the chain,
  \<open>configureSampler\<close> succeeds and leaves the session with exactly the pipeline of the
  specification: the repetition penalty first iff \<open>repeatPenalty != 1.0\<close>; then greedy
  decoding alone iff \<open>temperature <= 0.01\<close> (as a float, see \<open>fle_lit_0_01f\<close>);
  otherwise top-k iff \<open>topK > 0\<close>, typical
  iff \<open>0 < typicalP < 1\<close>, top-p iff \<open>0 < topP < 1\<close>, min-p iff \<open>minP > 0\<close>,
  temperature scaling and the final draw, in this order.
\<close>

theorem configureSampler_pipeline:
  "SamplingParams_validate p = Inr () \<Longrightarrow> sampler_chain_init_ok e \<Longrightarrow>
   fst (configureSampler e p s) = Inr () \<and>
   sampler (snd (configureSampler e p s)) = Some (pipeline_spec p)"
  by (simp add: configureSampler_def Let_def sampler_chain_spec)

theorem configureSampler_pipeline_witness:
  "SamplingParams_validate default_SamplingParams = Inr () \<and>
   sampler_chain_init_ok demo_engine \<and>
   fst (configureSampler demo_engine default_SamplingParams new_KLlama) = Inr () \<and>
   sampler (snd (configureSampler demo_engine default_SamplingParams new_KLlama)) =
     Some [Penalties 64 (Fin (11 / 10)) (Fin 0) (Fin 0), TopK 40, TopP (Fin (9 / 10)) 1,
           MinP (Fin (5 / 100)) 1, Temp (Fin (7 / 10)), Dist]"
proof -
  have ok: "sampler_chain_init_ok demo_engine" by (simp add: demo_engine_def)
  have p: "pipeline_spec default_SamplingParams =
     [Penalties 64 (Fin (11 / 10)) (Fin 0) (Fin 0), TopK 40, TopP (Fin (9 / 10)) 1,
      MinP (Fin (5 / 100)) 1, Temp (Fin (7 / 10)), Dist]"
    by (simp add: pipeline_spec_def default_SamplingParams_def fneq_def
        lit_0_0f_def lit_1_0f_def lit_0_01f_def)
  show ?thesis
    using configureSampler_pipeline [OF validate_default ok, of new_KLlama] validate_default ok p
    by simp
qed

text \<open>
  Claim C10. \<open>validate\<close> never looks at \<open>typicalP\<close>: changing that field alone does
  not change its answer, so it succeeds for any \<open>typicalP\<close>, in \<open>[0, 1]\<close> or not, when
  the other fields are in range. A \<open>typicalP\<close> that is not strictly between 0 and 1 only
  keeps the typical stage out of the sampler chain.
\<close>

theorem validate_ignores_typicalP:
  "SamplingParams_validate (p\<lparr>typicalP := x\<rparr>) = SamplingParams_validate p \<and>
   (ranges_ok p \<longrightarrow> SamplingParams_validate (p\<lparr>typicalP := x\<rparr>) = Inr ()) \<and>
   (\<not> (fless lit_0_0f x \<and> fless x lit_1_0f) \<longrightarrow>
      (\<forall>y n. Typical y n \<notin> set (sampler_chain (p\<lparr>typicalP := x\<rparr>))))"
proof -
  have a: "SamplingParams_validate (p\<lparr>typicalP := x\<rparr>) = SamplingParams_validate p"
    by (simp add: SamplingParams_validate_def)
  have r: "ranges_ok (p\<lparr>typicalP := x\<rparr>) = ranges_ok p"
    by (simp add: ranges_ok_def)
  have b: "ranges_ok p \<longrightarrow> SamplingParams_validate (p\<lparr>typicalP := x\<rparr>) = Inr ()"
    using validate_ranges_ok [of "p\<lparr>typicalP := x\<rparr>"] r by simp
  have c: "\<not> (fless lit_0_0f x \<and> fless x lit_1_0f) \<longrightarrow>
      (\<forall>y n. Typical y n \<notin> set (sampler_chain (p\<lparr>typicalP := x\<rparr>)))"
    by (auto simp: sampler_chain_spec pipeline_spec_def)
  from a b c show ?thesis by blast
qed

theorem validate_ignores_typicalP_witness:
  "ranges_ok default_SamplingParams \<and>
   \<not> (fless lit_0_0f (Fin 5) \<and> fless (Fin 5) lit_1_0f) \<and>
   SamplingParams_validate (default_SamplingParams\<lparr>typicalP := Fin 5\<rparr>) = Inr () \<and>
   Typical (Fin 5) 1 \<notin> set (sampler_chain (default_SamplingParams\<lparr>typicalP := Fin 5\<rparr>))"
proof -
  have r: "ranges_ok default_SamplingParams"
    by (simp add: ranges_ok_def default_SamplingParams_def)
  have g: "\<not> (fless lit_0_0f (Fin 5) \<and> fless (Fin 5) lit_1_0f)"
    by (simp add: lit_1_0f_def)
  show ?thesis
    using validate_ignores_typicalP [where p = default_SamplingParams and x = "Fin 5"] r g
    by blast
qed

section \<open>Image validation: properties\<close>

lemma take2_eq: "2 \<le> length d \<Longrightarrow> (take 2 d = [a, b]) = (d ! 0 = a \<and> d ! 1 = b)"
  by (cases d; simp) (rename_tac x xs, case_tac xs; simp)

lemma take4_eq:
  "4 \<le> length d \<Longrightarrow>
   (take 4 d = [a, b, c, f]) = (d ! 0 = a \<and> d ! 1 = b \<and> d ! 2 = c \<and> d ! 3 = f)"
  apply (cases d; simp)
  apply (rename_tac x xs, case_tac xs; simp)
  apply (rename_tac y ys, case_tac ys; simp)
  apply (rename_tac z zs, case_tac zs; simp)
  done

lemma accepted_image_iff:
  "accepted_image d =
     (8 \<le> length d \<and>
      ((d ! 0 = 0x89 \<and> d ! 1 = 0x50 \<and> d ! 2 = 0x4E \<and> d ! 3 = 0x47) \<or>
       (d ! 0 = 0xFF \<and> d ! 1 = 0xD8) \<or> (d ! 0 = 0x42 \<and> d ! 1 = 0x4D)))"
proof (cases "8 \<le> length d")
  case True
  then have "2 \<le> length d" "4 \<le> length d" by simp_all
  then show ?thesis
    unfolding accepted_image_def by (simp only: take2_eq take4_eq)
next
  case False
  then show ?thesis unfolding accepted_image_def by simp
qed

lemma validateImageData_eq:
  "validateImageData img =
     (if accepted_image (data img) then Inr (data img)
      else Inl (ImageProcessingFailed,
                if data img = [] then ''Image data is empty''
                else if length (data img) < 8 then ''Image data too small''
                else ''Unsupported image format''))"
proof (cases "8 \<le> length (data img)")
  case True
  then have ne: "data img \<noteq> []" and ge2: "2 \<le> length (data img)"
    and nl: "\<not> length (data img) < 8"
    by auto
  show ?thesis
    unfolding validateImageData_def Let_def accepted_image_iff
    using True ne ge2 nl by (simp del: One_nat_def)
next
  case False
  then have "\<not> accepted_image (data img)" by (simp add: accepted_image_def)
  then show ?thesis using False
    unfolding validateImageData_def Let_def by simp
qed

text \<open>
  Claim C8. \<open>validateImageData\<close> succeeds, returning the bytes, if and only if the buffer
  has at least 8 bytes and begins with the PNG, the JPEG or the BMP signature; every
  other buffer (empty, under 8 bytes, or with another signature) is rejected with
  \<open>ImageProcessingFailed\<close>.
\<close>

theorem validateImageData_accepts_iff:
  "(validateImageData img = Inr (data img)) = accepted_image (data img) \<and>
   isSuccess (validateImageData img) = accepted_image (data img) \<and>
   isError (validateImageData img) =
     (error_of (validateImageData img) = Some ImageProcessingFailed)"
  by (simp add: validateImageData_eq isSuccess_def isError_def error_of_def)

text \<open>The examples of the specification.\<close>

lemma validateImageData_examples:
  "validateImageData \<lparr> data = [0, 0, 0, 0] \<rparr> =
     Inl (ImageProcessingFailed, ''Image data too small'')"
  "validateImageData \<lparr> data = [] \<rparr> = Inl (ImageProcessingFailed, ''Image data is empty'')"
  "validateImageData \<lparr> data = [0x89, 0x50, 0x4E, 0x47, 0x0D, 0x0A, 0x1A, 0x0A] \<rparr> =
     Inr [0x89, 0x50, 0x4E, 0x47, 0x0D, 0x0A, 0x1A, 0x0A]"
  "validateImageData \<lparr> data = [0xFF, 0xD8, 0xFF, 0xE0, 0, 0x10, 0x4A, 0x46] \<rparr> =
     Inr [0xFF, 0xD8, 0xFF, 0xE0, 0, 0x10, 0x4A, 0x46]"
  "validateImageData \<lparr> data = [0, 1, 2, 3, 4, 5, 6, 7] \<rparr> =
     Inl (ImageProcessingFailed, ''Unsupported image format'')"
  "validateImageData \<lparr> data = [0xFF, 0xD8, 0xFF, 0xE0] \<rparr> =
     Inl (ImageProcessingFailed, ''Image data too small'')"
  by (simp_all add: validateImageData_eq accepted_image_def)

section \<open>Teardown: properties\<close>

lemma freeMemory_eq:
  "freeMemory s =
     (Inr (), s\<lparr> initialized := False, generationState := Idle, visionContext := False,
                 model := False, llamaContext := False, sampler := None,
                 batch_token := False,
                 currentStats := (currentStats s)\<lparr> state := Idle \<rparr>,
                 trace := trace s @ release_events s \<rparr>)"
  by (simp add: freeMemory_def Let_def emit_def setGenerationState_def release_events_def)

lemma release_events_freed:
  "release_events (s\<lparr> initialized := False, generationState := g, visionContext := False,
                       model := False, llamaContext := False, sampler := None,
                       batch_token := False, currentStats := c, trace := t \<rparr>) = []"
  by (simp add: release_events_def)

lemma release_events_empty: "empty_session s \<Longrightarrow> release_events s = []"
  by (simp add: release_events_def empty_session_def)

text \<open>
  Claim C9. Teardown never fails and is idempotent: from every session state
  \<open>freeMemory\<close> returns success and leaves the session uninitialised, holding nothing,
  with generation state \<open>Idle\<close>; a second call right after returns success again and
  changes nothing, releasing nothing a second time (\<open>freeMemory\<close> after \<open>freeMemory\<close>
  is \<open>freeMemory\<close>).
\<close>

theorem freeMemory_idempotent:
  "fst (freeMemory s) = Inr () \<and>
   fst (freeMemory (snd (freeMemory s))) = Inr () \<and>
   snd (freeMemory (snd (freeMemory s))) = snd (freeMemory s) \<and>
   empty_session (snd (freeMemory s)) \<and>
   generationState (snd (freeMemory s)) = Idle"
  by (simp add: freeMemory_eq release_events_freed empty_session_def)

section \<open>Initialisation: properties\<close>

lemmas init_defs = initialize_def initializeModel_def initializeVision_def progress_def emit_def
  setGenerationState_def Let_def isError_def

lemma setGenerationState_same:
  "generationState s = g \<Longrightarrow> state (currentStats s) = g \<Longrightarrow> setGenerationState g s = s"
  by (simp add: setGenerationState_def)

lemma new_KLlama_empty: "empty_session new_KLlama"
  by (simp add: empty_session_def new_KLlama_def)

lemma demo_facts:
  "sampling demo_params = default_SamplingParams"
  "contextSize demo_params = 16000"
  "mmprojPath demo_params = []"
  "modelPath demo_params = ''model.gguf''"
  by (simp_all add: demo_params_def default_SessionParams_def)


lemma validate_demo_params: "SessionParams_validate demo_engine demo_params = Returns (Inr ())"
  by (simp add: SessionParams_validate_def checkFileExists_def demo_engine_def demo_params_def
        default_SessionParams_def validate_default isError_def)


text \<open>
  When the file system answers that the model file is not there, \<open>initialize\<close> on an
  empty session returns \<open>ModelNotFound\<close> and leaves the session exactly as it was: no
  engine call is made and no member is written. A teardown of that session releases
  nothing: it makes no engine call and only sets the generation state to \<open>Idle\<close>,
  which changes nothing when the state is \<open>Idle\<close> already.
\<close>

lemma initialize_model_not_found:
  assumes "empty_session s" and "modelPath sp \<noteq> []"
    and "file_status e (modelPath sp) = FileNotFound"
  shows "initialize e sp pcb tok s =
           (Returns (Inl (ModelNotFound, ''File not found: '' @ modelPath sp)), s) \<and>
         freeMemory s = (Inr (), setGenerationState Idle s) \<and>
         trace (snd (freeMemory s)) = trace s \<and>
         (generationState s = Idle \<and> state (currentStats s) = Idle \<longrightarrow>
            snd (freeMemory s) = s)"
proof -
  have v: "SessionParams_validate e sp =
             Returns (Inl (ModelNotFound, ''File not found: '' @ modelPath sp))"
    using assms(2,3) by (simp add: SessionParams_validate_def checkFileExists_def isError_def)
  have i: "initialize e sp pcb tok s =
             (Returns (Inl (ModelNotFound, ''File not found: '' @ modelPath sp)), s)"
    using assms(1) v by (simp add: initialize_def empty_session_def isError_def)
  have f: "freeMemory s = (Inr (), setGenerationState Idle s)"
    using assms(1) by (simp add: freeMemory_def Let_def empty_session_def)
  have t: "trace (snd (freeMemory s)) = trace s"
    by (simp add: f setGenerationState_def)
  have n: "generationState s = Idle \<and> state (currentStats s) = Idle \<longrightarrow>
             snd (freeMemory s) = s"
    by (simp add: f setGenerationState_same)
  from i f t n show ?thesis by blast
qed

lemma initialize_missing_gguf:
  "initialize demo_engine missing_model_params True None new_KLlama =
     (Returns (Inl (ModelNotFound, ''File not found: missing.gguf'')), new_KLlama) \<and>
   snd (freeMemory new_KLlama) = new_KLlama"
proof -
  have a: "modelPath missing_model_params \<noteq> []"
    and b: "file_status demo_engine (modelPath missing_model_params) = FileNotFound"
    and c: "modelPath missing_model_params = ''missing.gguf''"
    by (simp_all add: missing_model_params_def default_SessionParams_def demo_engine_def)
  have d: "generationState new_KLlama = Idle \<and> state (currentStats new_KLlama) = Idle"
    by (simp add: new_KLlama_def)
  note th = initialize_model_not_found [OF new_KLlama_empty a b, of True None]
  have i: "initialize demo_engine missing_model_params True None new_KLlama =
     (Returns (Inl (ModelNotFound, ''File not found: missing.gguf'')), new_KLlama)"
    using th c by simp
  have f: "snd (freeMemory new_KLlama) = new_KLlama"
    using th d by blast
  show ?thesis using i f by blast
qed

text \<open>
  Claim C5. The claim is what \<open>checkFileExists\<close> is written for (``File not found''),
  and the code misses a case of it. The existence test of line 52 is the throwing
  overload of \<open>std::filesystem::exists\<close>, and nothing between it and the caller of
  \<open>initialize\<close> catches: for a model path that names no existing file but whose status
  query fails, here a name of 256 characters, \<open>initialize\<close> does not return
  \<open>ModelNotFound\<close>; it returns nothing and throws \<open>filesystem_error\<close>. The session
  is left untouched. For a path that the file system reports as not found the claim
  holds (\<open>initialize_model_not_found\<close>).
\<close>

theorem initialize_long_name_throws:
  "modelPath long_name_params \<noteq> [] \<and>
   file_status demo_engine (modelPath long_name_params) = StatFails \<and>
   fst (initialize demo_engine long_name_params False None new_KLlama) =
     Throws_filesystem_error \<and>
   fst (initialize demo_engine long_name_params False None new_KLlama) \<noteq>
     Returns (Inl (ModelNotFound, ''File not found: '' @ modelPath long_name_params)) \<and>
   snd (initialize demo_engine long_name_params False None new_KLlama) = new_KLlama"
proof -
  have l: "length (modelPath long_name_params) = 256"
    by (simp add: long_name_params_def default_SessionParams_def)
  then have n: "modelPath long_name_params \<noteq> []"
    "modelPath long_name_params \<noteq> ''model.gguf''"
    "modelPath long_name_params \<noteq> ''mmproj.gguf''"
    by auto
  have st: "file_status demo_engine (modelPath long_name_params) = StatFails"
    using l n by (simp add: demo_engine_def)
  have v: "SessionParams_validate demo_engine long_name_params = Throws_filesystem_error"
    using n(1) st by (simp add: SessionParams_validate_def checkFileExists_def)
  have i: "initialize demo_engine long_name_params False None new_KLlama =
             (Throws_filesystem_error, new_KLlama)"
    using v by (simp add: initialize_def new_KLlama_def)
  show ?thesis using n(1) st i by simp
qed









text \<open>The first poll is the only one that ends in \<open>Cancelled\<close>: it comes before the
  backend is initialised, and nothing has been acquired.\<close>

lemma initialize_cancelled_at_first_poll:
  assumes "\<not> initialized s" and "SessionParams_validate e sp = Returns (Inr ())"
    and "isCancelled tok 0"
  shows "initialize e sp pcb tok s =
           (Returns (Inl (OperationCancelled, [])),
            setGenerationState Cancelled
              (progress pcb ''Initializing backend''
                 (setGenerationState Initializing (s\<lparr> params := sp \<rparr>))))"
  using assms by (simp add: initialize_def Let_def isError_def)

section \<open>Generation: properties\<close>

lemmas gen_defs = finish_generation_def progress_def emit_def setGenerationState_def Let_def

lemmas generate_defs = generateResponse_def generateResponse_override_def
  generateResponseInternal_def checkInitialized_def
  extractAllImages_def configureSampler_def reset_def evaluate_and_generate_def
  start_generation_def isCancelled_def

subsection \<open>The per-token loop\<close>

lemma gen_loop_exit:
  assumes "\<not> (generationState s = Generating \<and> tc < maxTokens sp)"
  shows "gen_loop e sp tcb pcb tok polls tc resp iters s =
           (iters, finish_generation pcb resp s)"
  by (subst gen_loop.simps) (rule if_not_P [OF assms])

text \<open>Each entry into the body either leaves the loop or uses up one unit of the
  budget \<open>maxTokens - tokenCount\<close>.\<close>

lemma gen_loop_iters:
  "nat (maxTokens sp - tc) = n \<Longrightarrow>
   fst (gen_loop e sp tcb pcb tok polls tc resp iters s) \<le> iters + n"
proof (induction n arbitrary: tc resp iters s tcb pcb)
  case 0
  then have "\<not> (generationState s = Generating \<and> tc < maxTokens sp)" by simp
  then show ?case by (simp add: gen_loop_exit)
next
  case (Suc n)
  then have r: "nat (maxTokens sp - (tc + 1)) = n" by simp
  show ?case
  proof (cases "generationState s = Generating \<and> tc < maxTokens sp")
    case False
    then show ?thesis by (simp add: gen_loop_exit)
  next
    case True
    have IH: "\<And>tcb pcb resp s.
                 fst (gen_loop e sp tcb pcb tok polls (tc + 1) resp (Suc iters) s)
                 \<le> Suc (iters + n)"
      using Suc.IH [OF r, where iters = "Suc iters"] by simp
    show ?thesis
      using True
      by (auto simp: gen_loop.simps [of e sp tcb pcb tok polls tc resp iters s] gen_defs
            intro!: IH split: option.splits)
  qed
qed

lemma gen_loop_tokensGenerated:
  "nat (maxTokens sp - tc) = n \<Longrightarrow> tokensGenerated (currentStats s) \<le> maxTokens sp \<Longrightarrow>
   tokensGenerated (currentStats (snd (snd (gen_loop e sp tcb pcb tok polls tc resp iters s))))
     \<le> maxTokens sp"
proof (induction n arbitrary: tc resp iters s tcb pcb)
  case 0
  then have "\<not> (generationState s = Generating \<and> tc < maxTokens sp)" by simp
  then show ?case using "0.prems" by (simp add: gen_loop_exit gen_defs)
next
  case (Suc n)
  then have r: "nat (maxTokens sp - (tc + 1)) = n" by simp
  show ?case
  proof (cases "generationState s = Generating \<and> tc < maxTokens sp")
    case False
    then show ?thesis using Suc.prems by (simp add: gen_loop_exit gen_defs)
  next
    case True
    have IH: "\<And>tcb pcb resp iters s. tokensGenerated (currentStats s) = tc + 1 \<Longrightarrow>
      tokensGenerated (currentStats (snd (snd
         (gen_loop e sp tcb pcb tok polls (tc + 1) resp iters s)))) \<le> maxTokens sp"
      using Suc.IH [OF r] True by simp
    show ?thesis
      using True Suc.prems
      by (auto simp: gen_loop.simps [of e sp tcb pcb tok polls tc resp iters s] gen_defs
            intro!: IH split: option.splits)
  qed
qed

text \<open>A successful loop ends in \<open>Finished\<close>.\<close>

lemma gen_loop_success:
  "nat (maxTokens sp - tc) = n \<Longrightarrow>
   fst (snd (gen_loop e sp tcb pcb tok polls tc resp iters s)) = Inr r \<Longrightarrow>
   generationState (snd (snd (gen_loop e sp tcb pcb tok polls tc resp iters s))) = Finished \<and>
   initialized (snd (snd (gen_loop e sp tcb pcb tok polls tc resp iters s))) = initialized s"
proof (induction n arbitrary: tc resp iters s tcb pcb)
  case 0
  then have "\<not> (generationState s = Generating \<and> tc < maxTokens sp)" by simp
  then show ?case by (simp add: gen_loop_exit gen_defs)
next
  case (Suc n)
  then have r: "nat (maxTokens sp - (tc + 1)) = n" by simp
  show ?case
  proof (cases "generationState s = Generating \<and> tc < maxTokens sp")
    case False
    then show ?thesis by (simp add: gen_loop_exit gen_defs)
  next
    case True
    note IH = Suc.IH [OF r]
    show ?thesis
      using True Suc.prems(2)
      by (auto simp: gen_loop.simps [of e sp tcb pcb tok polls tc resp iters s] gen_defs
            split: option.splits if_splits dest!: IH)
  qed
qed

lemma maxTokens_range: "0 < maxTokens sp \<and> maxTokens sp < 2 ^ 31"
proof -
  have "sint (nPredict sp) < 2 ^ 31" using sint_lt [of "nPredict sp"] by simp
  then show ?thesis by (simp add: maxTokens_def)
qed

text \<open>
  Claim C7. The per-token loop is entered with \<open>tokenCount = 0\<close> and with the
  statistics reset (line 554), so \<open>tokensGenerated = 0\<close>. Whatever the engine answers,
  in particular if the model never emits an end-of-generation token, the loop body is
  entered at most \<open>maxTokens\<close> times, which is \<open>nPredict\<close> when that is positive and
  4096 otherwise, and \<open>tokensGenerated\<close> never exceeds that bound. The loop terminates:
  \<open>gen_loop\<close> is a total function, its budget \<open>maxTokens - tokenCount\<close> decreasing at
  every turn. The bound is below \<open>2^31\<close>, so the 32-bit counter does not wrap.
\<close>

theorem gen_loop_bounded:
  "tokensGenerated (currentStats s) = 0 \<Longrightarrow>
   int (fst (gen_loop e sp tcb pcb tok polls 0 [] 0 s)) \<le> maxTokens sp \<and>
   tokensGenerated (currentStats (snd (snd (gen_loop e sp tcb pcb tok polls 0 [] 0 s))))
     \<le> maxTokens sp \<and>
   maxTokens sp = (if 0 < sint (nPredict sp) then sint (nPredict sp) else 4096) \<and>
   maxTokens sp < 2 ^ 31"
proof -
  assume z: "tokensGenerated (currentStats s) = 0"
  have pos: "0 < maxTokens sp" using maxTokens_range by simp
  have "fst (gen_loop e sp tcb pcb tok polls 0 [] 0 s) \<le> 0 + nat (maxTokens sp - 0)"
    by (rule gen_loop_iters) simp
  then have a: "int (fst (gen_loop e sp tcb pcb tok polls 0 [] 0 s)) \<le> maxTokens sp"
    using pos by simp
  have b: "tokensGenerated
             (currentStats (snd (snd (gen_loop e sp tcb pcb tok polls 0 [] 0 s))))
           \<le> maxTokens sp"
    using z pos by (intro gen_loop_tokensGenerated [OF refl]) simp
  show ?thesis using a b maxTokens_range by (simp add: maxTokens_def)
qed

lemma ready_session_eq:
  "ready_session = new_KLlama\<lparr> initialized := True, params := demo_params, model := True,
                llamaContext := True, batch_token := True,
                trace := [BackendInit, BatchInit, ModelLoad, ContextInit] \<rparr>"
  by (simp add: ready_session_def init_defs validate_demo_params isCancelled_def new_KLlama_def)
     (simp add: demo_engine_def demo_facts)

lemma ready_session_fields:
  "initialized ready_session" "generationState ready_session = Idle"
  "params ready_session = demo_params" "sampler ready_session = None"
  "\<not> visionContext ready_session"
  "tokensGenerated (currentStats ready_session) = 0"
  "trace ready_session = [BackendInit, BatchInit, ModelLoad, ContextInit]"
  by (simp_all add: ready_session_eq new_KLlama_def)

text \<open>With a model that never ends and \<open>nPredict = 3\<close> the bound is reached: three
  turns, three tokens, and the call finishes with the three fragments.\<close>

theorem gen_loop_bounded_witness:
  "tokensGenerated (currentStats (setGenerationState Generating ready_session)) = 0 \<and>
   maxTokens three_tokens = 3 \<and>
   fst (gen_loop endless_engine three_tokens True False None 2 0 [] 0
          (setGenerationState Generating ready_session)) = 3 \<and>
   tokensGenerated (currentStats (snd (snd
       (gen_loop endless_engine three_tokens True False None 2 0 [] 0
          (setGenerationState Generating ready_session))))) = 3 \<and>
   fst (snd (gen_loop endless_engine three_tokens True False None 2 0 [] 0
          (setGenerationState Generating ready_session))) = Inr ''ababab''"
proof -
  have z: "tokensGenerated (currentStats (setGenerationState Generating ready_session)) = 0"
    by (simp add: setGenerationState_def ready_session_fields)
  have m: "maxTokens three_tokens = 3"
    by (simp add: maxTokens_def three_tokens_def)
  have ev: "gen_loop endless_engine three_tokens True False None 2 0 [] 0
          (setGenerationState Generating ready_session) =
        (3, Inr ''ababab'',
         snd (snd (gen_loop endless_engine three_tokens True False None 2 0 [] 0
          (setGenerationState Generating ready_session))))"
    by (simp add: gen_loop.simps m gen_defs isCancelled_def endless_engine_def demo_engine_def
          LLAMA_TOKEN_NULL_def tokenToString_def)
  have t: "tokensGenerated (currentStats (snd (snd
       (gen_loop endless_engine three_tokens True False None 2 0 [] 0
          (setGenerationState Generating ready_session))))) = 3"
    by (simp add: gen_loop.simps m gen_defs isCancelled_def endless_engine_def demo_engine_def
          LLAMA_TOKEN_NULL_def tokenToString_def)
  have f: "fst (gen_loop endless_engine three_tokens True False None 2 0 [] 0
          (setGenerationState Generating ready_session)) = 3"
    and r: "fst (snd (gen_loop endless_engine three_tokens True False None 2 0 [] 0
          (setGenerationState Generating ready_session))) = Inr ''ababab''"
    by (subst ev, simp)+
  show ?thesis
    using gen_loop_bounded [OF z, of endless_engine three_tokens True False None 2] z m f t r
    by simp
qed

text \<open>The whole call: the statistics are either those of this call, within the
  bound, or untouched because the call failed before line 554.\<close>

lemma start_generation_tokensGenerated:
  "tokensGenerated (currentStats s) = 0 \<Longrightarrow>
   tokensGenerated (currentStats (snd (start_generation e sp tcb pcb tok polls s)))
     \<le> maxTokens sp"
proof -
  assume z: "tokensGenerated (currentStats s) = 0"
  have pos: "0 < maxTokens sp" using maxTokens_range by simp
  show ?thesis
  proof (cases "isCancelled tok polls")
    case True
    then show ?thesis using z pos by (simp add: start_generation_def setGenerationState_def)
  next
    case False
    have "tokensGenerated (currentStats (snd (snd
            (gen_loop e sp tcb pcb tok (polls + 1) 0 [] 0
               (progress pcb ''Generating response'' (setGenerationState Generating s))))))
          \<le> maxTokens sp"
      using z pos by (intro gen_loop_tokensGenerated [OF refl]) (simp add: gen_defs)
    then show ?thesis using False by (simp add: start_generation_def)
  qed
qed

lemma evaluate_and_generate_tokensGenerated:
  "tokensGenerated (currentStats s) = 0 \<Longrightarrow>
   tokensGenerated (currentStats (snd (evaluate_and_generate e imgs sp tcb pcb tok s)))
     \<le> maxTokens sp"
  using maxTokens_range [of sp]
  unfolding evaluate_and_generate_def Let_def
  by (auto intro!: start_generation_tokensGenerated
        simp: progress_def emit_def setGenerationState_def)

lemma generate_tokensGenerated:
  "tokensGenerated (currentStats (snd (generateResponseInternal e c sp tcb pcb tok s)))
     \<le> maxTokens sp \<or>
   currentStats (snd (generateResponseInternal e c sp tcb pcb tok s)) = currentStats s"
  using maxTokens_range [of sp]
  unfolding generateResponseInternal_def checkInitialized_def configureSampler_def
      reset_def Let_def
  by (auto split: if_splits option.splits sum.splits
        intro!: evaluate_and_generate_tokensGenerated
        simp: emit_def setGenerationState_def)

subsection \<open>One generation at a time\<close>

lemma default_sampling_facts:
  "maxTokens default_SamplingParams = 4096"
  "sint (nPredict default_SamplingParams) = - 1"
  by (simp_all add: maxTokens_def default_SamplingParams_def)

lemma demo_conversation_facts:
  "demo_conversation \<noteq> []" "concat (map images demo_conversation) = []"
  by (simp_all add: demo_conversation_def)

lemma demo_engine_facts:
  "sampler_chain_init_ok demo_engine" "chat_apply_template demo_engine c n = 32"
  "tokenize_result demo_engine = 8" "\<not> prompt_decode_failed demo_engine"
  "sampler_sample demo_engine 0 = 100" "sampler_sample demo_engine (Suc 0) = 100"
  "sampler_sample demo_engine 2 = 2" "vocab_is_eog demo_engine t = (t = 2)"
  "token_piece demo_engine t = ''ab''" "\<not> token_decode_failed demo_engine i"
  by (simp_all add: demo_engine_def)

text \<open>The first generation on the ready session: two fragments go to the token
  callback, the third sample ends the answer, and the state is left at \<open>Finished\<close>.\<close>

lemma first_generation:
  "generateResponse demo_engine demo_conversation True False None ready_session =
     (Inr ''abab'',
      ready_session
       \<lparr>sampler := Some (sampler_chain default_SamplingParams),
          trace :=
            [BackendInit, BatchInit, ModelLoad, ContextInit,
             SamplerChainInit, MemorySeqRm, TextBatchInit, Decode, TextBatchFree,
             TokenCb ''ab'', Decode, TokenCb ''ab'', Decode],
          generationState := Finished,
          currentStats :=
            \<lparr>tokensGenerated = 2, state = Finished,
               statsSampling = default_SamplingParams\<rparr>\<rparr>)"
  by (simp add: generate_defs ready_session_fields demo_facts validate_default
        demo_conversation_facts demo_engine_facts
        default_sampling_facts gen_defs gen_loop.simps LLAMA_TOKEN_NULL_def tokenToString_def)

text \<open>The guard of line 523 lets a call through only in state \<open>Idle\<close>.\<close>

lemma generate_not_idle:
  "initialized s \<Longrightarrow> generationState s \<noteq> Idle \<Longrightarrow>
   generateResponseInternal e conversation sp tcb pcb tok s =
     (Inl (InvalidParameters, ''Generation already in progress''), s)"
  by (simp add: generateResponseInternal_def checkInitialized_def)

lemma start_generation_success:
  "fst (start_generation e sp tcb pcb tok polls s) = Inr r \<Longrightarrow>
   generationState (snd (start_generation e sp tcb pcb tok polls s)) = Finished \<and>
   initialized (snd (start_generation e sp tcb pcb tok polls s)) = initialized s"
  unfolding start_generation_def
  by (cases "isCancelled tok polls")
     (auto dest!: gen_loop_success [OF refl] simp: progress_def emit_def setGenerationState_def)

lemma evaluate_and_generate_success:
  "fst (evaluate_and_generate e imgs sp tcb pcb tok s) = Inr r \<Longrightarrow>
   generationState (snd (evaluate_and_generate e imgs sp tcb pcb tok s)) = Finished \<and>
   initialized (snd (evaluate_and_generate e imgs sp tcb pcb tok s)) = initialized s"
  unfolding evaluate_and_generate_def Let_def
  by (auto split: if_splits dest!: start_generation_success
        simp: progress_def emit_def setGenerationState_def)

text \<open>Every call that returns a response leaves the session initialised and in state
  \<open>Finished\<close>; nothing but \<open>freeMemory\<close> and \<open>initialize\<close> sets the state back to
  \<open>Idle\<close>.\<close>

lemma generate_success:
  assumes "fst (generateResponseInternal e c sp tcb pcb tok s) = Inr r"
  shows "generationState (snd (generateResponseInternal e c sp tcb pcb tok s)) = Finished \<and>
         initialized (snd (generateResponseInternal e c sp tcb pcb tok s))"
proof -
  have i: "initialized s"
    using assms
    by (cases "initialized s") (simp_all add: generateResponseInternal_def checkInitialized_def)
  show ?thesis
    using assms i
    unfolding generateResponseInternal_def checkInitialized_def configureSampler_def
      reset_def Let_def
    by (auto split: if_splits option.splits sum.splits dest!: evaluate_and_generate_success
          simp: emit_def setGenerationState_def)
qed

text \<open>So the call that follows a successful one is always refused.\<close>

lemma generate_after_success:
  assumes "fst (generateResponseInternal e c sp tcb pcb tok s) = Inr r"
  shows "fst (generateResponseInternal e' c' sp' tcb' pcb' tok'
                (snd (generateResponseInternal e c sp tcb pcb tok s))) =
           Inl (InvalidParameters, ''Generation already in progress'')"
  using generate_success [OF assms] by (simp add: generate_not_idle)

text \<open>
  Claim C1. The claim is what the guard's own message intends, and the code does not do
  it. On the ready session a first \<open>generateResponse\<close> returns its response and ends
  in \<open>Finished\<close>; the same call repeated on the session it left, still initialised and
  with no generation running, is refused by the guard of line 523 with
  \<open>InvalidParameters\<close>, ``Generation already in progress'', and changes nothing.
\<close>

theorem second_generation_rejected:
  "initialized ready_session \<and> generationState ready_session = Idle \<and>
   fst (generateResponse demo_engine demo_conversation True False None ready_session) =
     Inr ''abab'' \<and>
   initialized finished_session \<and> generationState finished_session = Finished \<and>
   generateResponse demo_engine demo_conversation True False None finished_session =
     (Inl (InvalidParameters, ''Generation already in progress''), finished_session)"
proof -
  have f: "initialized finished_session" "generationState finished_session = Finished"
    by (simp_all add: finished_session_def first_generation ready_session_fields)
  then have "generateResponse demo_engine demo_conversation True False None finished_session =
     (Inl (InvalidParameters, ''Generation already in progress''), finished_session)"
    by (simp add: generateResponse_def generate_not_idle)
  then show ?thesis using f by (simp add: first_generation ready_session_fields)
qed

subsection \<open>Cancellation before the call\<close>

lemma map_filter_append:
  "List.map_filter f (xs @ ys) = List.map_filter f xs @ List.map_filter f ys"
  by (simp add: List.map_filter_def)

lemma first_image_error_None:
  "(first_image_error imgs = None) = list_all (\<lambda>i. accepted_image (data i)) imgs"
  by (induction imgs) (simp_all add: validateImageData_eq)

lemma valid_demo_conversation: "valid_one_message ready_session demo_conversation"
  by (simp add: valid_one_message_def demo_conversation_def)

lemma cancelled_from_0: "isCancelled (Some (cancelled_from 0)) 0"
  by (simp add: isCancelled_def cancelled_from_def)

text \<open>
  Claim C6, as stated, fails: the token is polled for the first time at line 608, after
  the sampler has been configured and the chat template rendered, and either step can
  end the call first. On the ready session, with the one-message conversation and the
  token set before the call: a sampling override with temperature 5 gives
  \<open>InvalidParameters\<close> and state \<open>Idle\<close>; an engine that does not render the
  template gives \<open>TokenizationFailed\<close>; an engine that creates no sampler chain gives
  \<open>SamplingFailed\<close>. None returns \<open>OperationCancelled\<close> or ends in \<open>Cancelled\<close>.
\<close>

theorem cancelled_before_call_counterexample:
  "initialized ready_session \<and> valid_one_message ready_session demo_conversation \<and>
   isCancelled (Some (cancelled_from 0)) 0 \<and>
   generateResponse_override demo_engine demo_conversation hot_temperature True False
       (Some (cancelled_from 0)) ready_session =
     (Inl (InvalidParameters, ''Temperature must be between 0.0 and 2.0''), ready_session) \<and>
   generationState ready_session = Idle \<and>
   fst (generateResponse no_template_engine demo_conversation True False
          (Some (cancelled_from 0)) ready_session) =
     Inl (TokenizationFailed,
          ''Failed to apply chat template. Prompt may be too long or template invalid.'') \<and>
   generationState (snd (generateResponse no_template_engine demo_conversation True False
          (Some (cancelled_from 0)) ready_session)) = Initializing \<and>
   fst (generateResponse no_sampler_engine demo_conversation True False
          (Some (cancelled_from 0)) ready_session) =
     Inl (SamplingFailed, ''Failed to create sampler chain'') \<and>
   generationState (snd (generateResponse no_sampler_engine demo_conversation True False
          (Some (cancelled_from 0)) ready_session)) = Idle"
proof -
  have hot: "SamplingParams_validate hot_temperature =
               Inl (InvalidParameters, ''Temperature must be between 0.0 and 2.0'')"
    by (simp add: hot_temperature_def default_SamplingParams_def SamplingParams_validate_def
          fgreater_def lit_0_0f_def lit_2_0f_def)
  have a: "generateResponse_override demo_engine demo_conversation hot_temperature True False
       (Some (cancelled_from 0)) ready_session =
     (Inl (InvalidParameters, ''Temperature must be between 0.0 and 2.0''), ready_session)"
    by (simp add: generate_defs ready_session_fields demo_conversation_facts hot)
  have e: "sampler_chain_init_ok no_template_engine"
    "chat_apply_template no_template_engine c n = - 1"
    "\<not> sampler_chain_init_ok no_sampler_engine" for c n
    by (simp_all add: no_template_engine_def no_sampler_engine_def demo_engine_def)
  have b: "generateResponse no_template_engine demo_conversation True False
          (Some (cancelled_from 0)) ready_session =
     (Inl (TokenizationFailed,
          ''Failed to apply chat template. Prompt may be too long or template invalid.''),
      snd (generateResponse no_template_engine demo_conversation True False
          (Some (cancelled_from 0)) ready_session))"
    and b': "generationState (snd (generateResponse no_template_engine demo_conversation
          True False (Some (cancelled_from 0)) ready_session)) = Initializing"
    by (simp_all add: generate_defs ready_session_fields demo_conversation_facts demo_facts
          validate_default e gen_defs)
  have c: "generateResponse no_sampler_engine demo_conversation True False
          (Some (cancelled_from 0)) ready_session =
     (Inl (SamplingFailed, ''Failed to create sampler chain''),
      snd (generateResponse no_sampler_engine demo_conversation True False
          (Some (cancelled_from 0)) ready_session))"
    and c': "generationState (snd (generateResponse no_sampler_engine demo_conversation
          True False (Some (cancelled_from 0)) ready_session)) = Idle"
    by (simp_all add: generate_defs ready_session_fields demo_conversation_facts demo_facts
          validate_default e gen_defs)
  have fb: "fst (generateResponse no_template_engine demo_conversation True False
          (Some (cancelled_from 0)) ready_session) =
     Inl (TokenizationFailed,
          ''Failed to apply chat template. Prompt may be too long or template invalid.'')"
    by (subst b) simp
  have fc: "fst (generateResponse no_sampler_engine demo_conversation True False
          (Some (cancelled_from 0)) ready_session) =
     Inl (SamplingFailed, ''Failed to create sampler chain'')"
    by (subst c) simp
  show ?thesis
    using ready_session_fields(1,2) valid_demo_conversation cancelled_from_0 a fb b' fc c'
    by blast
qed

text \<open>
  Claim C6, amended. On an initialised session whose generation state is \<open>Idle\<close>,
  with a valid conversation of one message, sampling parameters that pass \<open>validate\<close>,
  and an engine that creates the sampler chain and renders the chat template: if the
  token is already set when the call polls it for the first time, \<open>generateResponse\<close>
  returns \<open>OperationCancelled\<close>, the generation state ends as \<open>Cancelled\<close>, and
  the token callback is not invoked. Both overloads are
  \<open>generateResponseInternal\<close>, one with the sampling parameters of the session.
\<close>

theorem generate_cancelled_at_start:
  assumes "initialized s" and "generationState s = Idle"
    and "valid_one_message s conversation"
    and "SamplingParams_validate sp = Inr ()"
    and "sampler_chain_init_ok e"
    and "0 \<le> chat_apply_template e conversation (contextSize (params s))"
    and "isCancelled tok 0"
  shows "fst (generateResponseInternal e conversation sp tcb pcb tok s) =
           Inl (OperationCancelled, []) \<and>
         generationState (snd (generateResponseInternal e conversation sp tcb pcb tok s)) =
           Cancelled \<and>
         token_callbacks (snd (generateResponseInternal e conversation sp tcb pcb tok s)) =
           token_callbacks s"
proof -
  from assms(3) obtain m where c: "conversation = [m]"
    and i: "list_all (\<lambda>i. accepted_image (data i)) (images m)"
    and v: "images m = [] \<or> visionContext s"
    by (auto simp: valid_one_message_def split: list.splits)
  have fe: "first_image_error (images m) = None"
    using i by (simp add: first_image_error_None)
  show ?thesis
    using assms(1,2,4-7) fe v
    by (auto simp: generateResponseInternal_def checkInitialized_def extractAllImages_def c
          configureSampler_def reset_def evaluate_and_generate_def gen_defs token_callbacks_def
          List.map_filter_simps map_filter_append)
qed

theorem generate_cancelled_at_start_witness:
  "initialized ready_session \<and> generationState ready_session = Idle \<and>
   valid_one_message ready_session demo_conversation \<and>
   SamplingParams_validate default_SamplingParams = Inr () \<and>
   sampler_chain_init_ok demo_engine \<and>
   0 \<le> chat_apply_template demo_engine demo_conversation (contextSize (params ready_session)) \<and>
   isCancelled (Some (cancelled_from 0)) 0 \<and>
   fst (generateResponseInternal demo_engine demo_conversation default_SamplingParams True True
          (Some (cancelled_from 0)) ready_session) = Inl (OperationCancelled, []) \<and>
   generationState (snd (generateResponseInternal demo_engine demo_conversation
          default_SamplingParams True True (Some (cancelled_from 0)) ready_session)) =
     Cancelled \<and>
   token_callbacks (snd (generateResponseInternal demo_engine demo_conversation
          default_SamplingParams True True (Some (cancelled_from 0)) ready_session)) = []"
proof -
  have t: "0 \<le> chat_apply_template demo_engine demo_conversation
                  (contextSize (params ready_session))"
    by (simp add: demo_engine_facts)
  have n: "token_callbacks ready_session = []"
    by (simp add: token_callbacks_def ready_session_fields List.map_filter_simps)
  show ?thesis
    using generate_cancelled_at_start [OF ready_session_fields(1,2) valid_demo_conversation
        validate_default demo_engine_facts(1) t cancelled_from_0, of True True]
      ready_session_fields(1,2) valid_demo_conversation validate_default
      demo_engine_facts(1) t cancelled_from_0 n
    by simp
qed

text \<open>Whatever else happens, a call that finds the token set at its first poll
  never reaches the token callback.\<close>

lemma generate_cancelled_no_token:
  "isCancelled tok 0 \<Longrightarrow>
   token_callbacks (snd (generateResponseInternal e c sp tcb pcb tok s)) = token_callbacks s"
  unfolding generateResponseInternal_def checkInitialized_def configureSampler_def
      reset_def Let_def evaluate_and_generate_def
  by (auto split: if_splits option.splits sum.splits
        simp: emit_def setGenerationState_def token_callbacks_def map_filter_append
          List.map_filter_simps)

end
